theory Spec2Isabelle
  imports Main
begin

section \<open>Configuration (Config.h)\<close>

text \<open>
  The calibration constants are preprocessor macros in \<^verbatim>\<open>Config.h\<close>. Each becomes a
  constant of type \<open>int\<close>, the type the C++ code computes with.
\<close>

definition TURN_SERVO_CHANNEL :: int where
  "TURN_SERVO_CHANNEL = 0"

definition ROTATE_SERVO_CHANNEL :: int where
  "ROTATE_SERVO_CHANNEL = 1"

definition TURN_SERVO_MIN :: int where
  "TURN_SERVO_MIN = 100"

definition TURN_SERVO_MAX :: int where
  "TURN_SERVO_MAX = 380"

definition ROTATE_SERVO_0 :: int where
  "ROTATE_SERVO_0 = 102"

definition ROTATE_SERVO_90 :: int where
  "ROTATE_SERVO_90 = 247"

definition ROTATE_SERVO_180 :: int where
  "ROTATE_SERVO_180 = 397"

definition ROTATE_SERVO_270 :: int where
  "ROTATE_SERVO_270 = 533"

definition TURN_DELAY_MS :: int where
  "TURN_DELAY_MS = 550"

definition ROTATE_DELAY_MS :: int where
  "ROTATE_DELAY_MS = 650"

section \<open>The servo controller (Servos.h, Servos.cpp)\<close>

subsection \<open>State and effects\<close>

text \<open>
  Class \<^verbatim>\<open>Servos\<close> has one data member of its own, \<^verbatim>\<open>rotationAngleDegree\<close>, and a
  handle \<^verbatim>\<open>pwm\<close> to the PCA9685 board. The methods act on the outside world in two ways
  only: \<^verbatim>\<open>pwm.setPWM(num, on, off)\<close> and \<^verbatim>\<open>delay(ms)\<close>. The model records these calls,
  in the order they are issued, in the field \<open>hw\<close>; the oldest call comes first.

  The C++ type \<^verbatim>\<open>int\<close> is modelled by the unbounded \<open>int\<close>. In every state the class
  can reach, \<^verbatim>\<open>rotationAngleDegree\<close> is one of 0, 90, 180, 270 (shown
  below), so every value the methods compute lies between
  \<open>-270\<close> and \<open>1950\<close> and no overflow arises, even for a 16-bit \<^verbatim>\<open>int\<close>. All
  dividends are non-negative, so the truncating division of C++ and \<open>div\<close> agree.
  The arguments of \<^verbatim>\<open>setPWM\<close> are constants of Config.h between 0 and 533 and the
  argument of \<^verbatim>\<open>delay\<close> is never negative, so the conversions to the unsigned
  parameter types of these two functions leave the values as they are.
\<close>

datatype hw_event =
    SetPWM int int int
  | Delay int

record servos =
  rotationAngleDegree :: int
  hw :: "hw_event list"

definition setPWM :: "int \<Rightarrow> int \<Rightarrow> int \<Rightarrow> servos \<Rightarrow> servos" where
  "setPWM num on off s = s\<lparr>hw := hw s @ [SetPWM num on off]\<rparr>"

definition delay :: "int \<Rightarrow> servos \<Rightarrow> servos" where
  "delay ms s = s\<lparr>hw := hw s @ [Delay ms]\<rparr>"

text \<open>The state of a freshly constructed object: the member initialiser of Servos.h.\<close>

definition initial :: servos where
  "initial = \<lparr>rotationAngleDegree = 0, hw = []\<rparr>"

subsection \<open>Observations of the recorded calls\<close>

text \<open>
  The board holds on each channel the signal written last. \<open>pwmOut evs ch\<close> is the
  \<^verbatim>\<open>off\<close> tick of the last \<^verbatim>\<open>setPWM\<close> on channel \<open>ch\<close> in \<open>evs\<close>, and \<open>None\<close> when the
  channel was never written. \<open>writesOn ch evs\<close> lists the ticks written to \<open>ch\<close>, and
  \<open>waited evs\<close> is the sum of all delays, in milliseconds.
\<close>

fun pwmStep :: "(int \<Rightarrow> int option) \<Rightarrow> hw_event \<Rightarrow> (int \<Rightarrow> int option)" where
  "pwmStep m (SetPWM num on off) = m(num := Some off)"
| "pwmStep m (Delay ms) = m"

definition pwmOut :: "hw_event list \<Rightarrow> int \<Rightarrow> int option" where
  "pwmOut evs = foldl pwmStep (\<lambda>ch. None) evs"

fun writesOn :: "int \<Rightarrow> hw_event list \<Rightarrow> int list" where
  "writesOn ch [] = []"
| "writesOn ch (SetPWM num on off # evs) =
     (if num = ch then off # writesOn ch evs else writesOn ch evs)"
| "writesOn ch (Delay ms # evs) = writesOn ch evs"

fun waited :: "hw_event list \<Rightarrow> int" where
  "waited [] = 0"
| "waited (SetPWM num on off # evs) = waited evs"
| "waited (Delay ms # evs) = ms + waited evs"

subsection \<open>Horizontal rotation\<close>

text \<open>
  \<^verbatim>\<open>int rotationTicks[] = { ROTATE_SERVO_0, ROTATE_SERVO_90, ROTATE_SERVO_180, ROTATE_SERVO_270 };\<close>
\<close>

definition rotationTicks :: "int list" where
  "rotationTicks = [ROTATE_SERVO_0, ROTATE_SERVO_90, ROTATE_SERVO_180, ROTATE_SERVO_270]"

text \<open>
  \<^verbatim>\<open>
  void Servos::rotateTo(int angleDegree) {
    if ((angleDegree == 0) || (angleDegree == 90) || (angleDegree == 180) || (angleDegree == 270)) {
      int numberSteps90 = abs(rotationAngleDegree - angleDegree) / 90;
      int pcaTicks = rotationTicks[angleDegree / 90];
      pwm.setPWM(ROTATE_SERVO_CHANNEL, 0, pcaTicks);
      delay(numberSteps90 * ROTATE_DELAY_MS);
      rotationAngleDegree = angleDegree;
    }
  }
  \<close>
  The array is read only under the guard, where the index is 0, 1, 2 or 3.
\<close>

definition rotateTo :: "int \<Rightarrow> servos \<Rightarrow> servos" where
  "rotateTo angleDegree s =
     (if angleDegree = 0 \<or> angleDegree = 90 \<or> angleDegree = 180 \<or> angleDegree = 270 then
        let numberSteps90 = \<bar>rotationAngleDegree s - angleDegree\<bar> div 90;
            pcaTicks = rotationTicks ! nat (angleDegree div 90);
            s1 = setPWM ROTATE_SERVO_CHANNEL 0 pcaTicks s;
            s2 = delay (numberSteps90 * ROTATE_DELAY_MS) s1
        in s2\<lparr>rotationAngleDegree := angleDegree\<rparr>
      else s)"

text \<open>
  \<^verbatim>\<open>
  void Servos::rotateLeft(void) {
    if (rotationAngleDegree > 0) rotateTo(rotationAngleDegree - 90);
    else rotateTo(270);
  }
  void Servos::rotateRight(void) {
    if (rotationAngleDegree < 270) rotateTo(rotationAngleDegree + 90);
    else rotateTo(0);
  }
  \<close>
\<close>

definition rotateLeft :: "servos \<Rightarrow> servos" where
  "rotateLeft s =
     (if rotationAngleDegree s > 0 then rotateTo (rotationAngleDegree s - 90) s
      else rotateTo 270 s)"

definition rotateRight :: "servos \<Rightarrow> servos" where
  "rotateRight s =
     (if rotationAngleDegree s < 270 then rotateTo (rotationAngleDegree s + 90) s
      else rotateTo 0 s)"

subsection \<open>Initial positions and vertical turn\<close>

text \<open>
  \<^verbatim>\<open>
  void Servos::initPositions(void) {
    pwm.setPWM(TURN_SERVO_CHANNEL, 0, TURN_SERVO_MIN);
    delay(TURN_DELAY_MS);
    rotateTo(0);
    delay(2 * ROTATE_DELAY_MS);
  }
  void Servos::turnCube(void) {
    pwm.setPWM(TURN_SERVO_CHANNEL, 0, TURN_SERVO_MAX);
    delay(TURN_DELAY_MS);
    pwm.setPWM(TURN_SERVO_CHANNEL, 0, TURN_SERVO_MIN);
    delay(TURN_DELAY_MS);
  }
  \<close>
\<close>

definition initPositions :: "servos \<Rightarrow> servos" where
  "initPositions s =
     (let s1 = setPWM TURN_SERVO_CHANNEL 0 TURN_SERVO_MIN s;
          s2 = delay TURN_DELAY_MS s1;
          s3 = rotateTo 0 s2
      in delay (2 * ROTATE_DELAY_MS) s3)"

definition turnCube :: "servos \<Rightarrow> servos" where
  "turnCube s =
     (let s1 = setPWM TURN_SERVO_CHANNEL 0 TURN_SERVO_MAX s;
          s2 = delay TURN_DELAY_MS s1;
          s3 = setPWM TURN_SERVO_CHANNEL 0 TURN_SERVO_MIN s2
      in delay TURN_DELAY_MS s3)"

subsection \<open>Sequences of rotation calls\<close>

text \<open>
  A caller issues the rotation methods one after the other on the same object.
  \<open>run s cs\<close> is the state after the calls \<open>cs\<close>, issued from left to right in state \<open>s\<close>.
\<close>

datatype call =
    RotateLeft
  | RotateRight
  | RotateTo int

fun exec :: "call \<Rightarrow> servos \<Rightarrow> servos" where
  "exec RotateLeft s = rotateLeft s"
| "exec RotateRight s = rotateRight s"
| "exec (RotateTo angleDegree) s = rotateTo angleDegree s"

fun run :: "servos \<Rightarrow> call list \<Rightarrow> servos" where
  "run s [] = s"
| "run s (c # cs) = run (exec c s) cs"

section \<open>Basic facts\<close>

lemmas config_defs =
  TURN_SERVO_CHANNEL_def ROTATE_SERVO_CHANNEL_def TURN_SERVO_MIN_def TURN_SERVO_MAX_def
  ROTATE_SERVO_0_def ROTATE_SERVO_90_def ROTATE_SERVO_180_def ROTATE_SERVO_270_def
  TURN_DELAY_MS_def ROTATE_DELAY_MS_def

lemma pwmOut_append: "pwmOut (xs @ ys) = foldl pwmStep (pwmOut xs) ys"
  by (simp add: pwmOut_def)

lemma writesOn_append: "writesOn ch (xs @ ys) = writesOn ch xs @ writesOn ch ys"
  by (induction ch xs rule: writesOn.induct) simp_all

lemma waited_append: "waited (xs @ ys) = waited xs + waited ys"
  by (induction xs rule: waited.induct) simp_all

lemma rotationTicks_nth:
  "rotationTicks ! 0 = ROTATE_SERVO_0"
  "rotationTicks ! 1 = ROTATE_SERVO_90"
  "rotationTicks ! Suc 0 = ROTATE_SERVO_90"
  "rotationTicks ! 2 = ROTATE_SERVO_180"
  "rotationTicks ! 3 = ROTATE_SERVO_270"
  by (simp_all add: rotationTicks_def)

text \<open>What \<open>rotateTo\<close> does when the guard holds, and when it does not.\<close>

lemma rotateTo_accepted:
  assumes "angleDegree = 0 \<or> angleDegree = 90 \<or> angleDegree = 180 \<or> angleDegree = 270"
  shows "rotateTo angleDegree s =
           \<lparr>rotationAngleDegree = angleDegree,
            hw = hw s @ [SetPWM ROTATE_SERVO_CHANNEL 0 (rotationTicks ! nat (angleDegree div 90)),
                         Delay (\<bar>rotationAngleDegree s - angleDegree\<bar> div 90 * ROTATE_DELAY_MS)]\<rparr>"
  using assms by (simp add: rotateTo_def setPWM_def delay_def Let_def)

lemma rotateTo_rejected:
  assumes "angleDegree \<noteq> 0" "angleDegree \<noteq> 90" "angleDegree \<noteq> 180" "angleDegree \<noteq> 270"
  shows "rotateTo angleDegree s = s"
  using assms by (simp add: rotateTo_def)

lemma rotateTo_angle_valid:
  assumes "rotationAngleDegree s \<in> {0, 90, 180, 270}"
  shows "rotationAngleDegree (rotateTo angleDegree s) \<in> {0, 90, 180, 270}"
proof (cases "angleDegree = 0 \<or> angleDegree = 90 \<or> angleDegree = 180 \<or> angleDegree = 270")
  case True
  then show ?thesis by (auto simp: rotateTo_accepted)
next
  case False
  then have "rotateTo angleDegree s = s" by (simp add: rotateTo_rejected)
  with assms show ?thesis by simp
qed

lemma rotateLeft_angle_valid:
  assumes "rotationAngleDegree s \<in> {0, 90, 180, 270}"
  shows "rotationAngleDegree (rotateLeft s) \<in> {0, 90, 180, 270}"
  using rotateTo_angle_valid [OF assms, of "rotationAngleDegree s - 90"]
    rotateTo_angle_valid [OF assms, of 270]
  by (simp add: rotateLeft_def)

lemma rotateRight_angle_valid:
  assumes "rotationAngleDegree s \<in> {0, 90, 180, 270}"
  shows "rotationAngleDegree (rotateRight s) \<in> {0, 90, 180, 270}"
  using rotateTo_angle_valid [OF assms, of "rotationAngleDegree s + 90"]
    rotateTo_angle_valid [OF assms, of 0]
  by (simp add: rotateRight_def)

lemma exec_angle_valid:
  assumes "rotationAngleDegree s \<in> {0, 90, 180, 270}"
  shows "rotationAngleDegree (exec c s) \<in> {0, 90, 180, 270}"
proof (cases c)
  case RotateLeft
  then show ?thesis using rotateLeft_angle_valid [OF assms] by simp
next
  case RotateRight
  then show ?thesis using rotateRight_angle_valid [OF assms] by simp
next
  case (RotateTo angleDegree)
  then show ?thesis using rotateTo_angle_valid [OF assms, of angleDegree] by simp
qed

lemma run_angle_valid:
  assumes "rotationAngleDegree s \<in> {0, 90, 180, 270}"
  shows "rotationAngleDegree (run s cs) \<in> {0, 90, 180, 270}"
  using assms
proof (induction cs arbitrary: s)
  case Nil
  then show ?case by simp
next
  case (Cons c cs)
  from Cons.prems have "rotationAngleDegree (exec c s) \<in> {0, 90, 180, 270}"
    by (rule exec_angle_valid)
  then show ?case using Cons.IH by simp
qed

section \<open>The claims\<close>

text \<open>
  C5. For every integer \<open>v\<close> other than 0, 90, 180 and 270 and every state, \<open>rotateTo v\<close>
  does nothing: the state is returned as it was, so no call to the board and no delay is
  recorded, the signal held on every channel is the same as before, and
  \<open>rotationAngleDegree\<close> keeps its value.
\<close>

theorem rotateTo_invalid_noop:
  assumes "v \<notin> {0, 90, 180, 270}"
  shows "rotateTo v s = s
       \<and> hw (rotateTo v s) = hw s
       \<and> pwmOut (hw (rotateTo v s)) = pwmOut (hw s)
       \<and> waited (hw (rotateTo v s)) = waited (hw s)
       \<and> rotationAngleDegree (rotateTo v s) = rotationAngleDegree s"
  using assms by (simp add: rotateTo_rejected)

theorem rotateTo_invalid_noop_witness:
  "(45::int) \<notin> {0, 90, 180, 270}
   \<and> rotateTo 45 \<lparr>rotationAngleDegree = 90, hw = [SetPWM 1 0 247, Delay 650]\<rparr>
       = \<lparr>rotationAngleDegree = 90, hw = [SetPWM 1 0 247, Delay 650]\<rparr>
   \<and> rotateTo (- 90) initial = initial
   \<and> rotateTo 360 initial = initial"
  using rotateTo_invalid_noop [of 45 "\<lparr>rotationAngleDegree = 90, hw = [SetPWM 1 0 247, Delay 650]\<rparr>"]
    rotateTo_invalid_noop [of "- 90" initial] rotateTo_invalid_noop [of 360 initial]
  by simp


text \<open>
  C1. For every target \<open>t\<close> and every current angle among 0, 90, 180 and 270,
  \<open>rotateTo t\<close> issues exactly two calls: it writes the calibrated tick of \<open>t\<close> to the
  rotate channel and then waits \<open>|a - t| / 90\<close> times \<open>ROTATE_DELAY_MS\<close>, where \<open>a\<close> is the
  current angle; the division is exact. Afterwards \<open>rotationAngleDegree\<close> is \<open>t\<close>. The
  step count is the linear distance, not the circular one.
\<close>

theorem rotateTo_valid_target:
  assumes "t \<in> {0, 90, 180, 270}"
    and "rotationAngleDegree s \<in> {0, 90, 180, 270}"
  shows "hw (rotateTo t s) =
           hw s @ [SetPWM ROTATE_SERVO_CHANNEL 0
                     (if t = 0 then ROTATE_SERVO_0
                      else if t = 90 then ROTATE_SERVO_90
                      else if t = 180 then ROTATE_SERVO_180
                      else ROTATE_SERVO_270),
                   Delay (\<bar>rotationAngleDegree s - t\<bar> div 90 * ROTATE_DELAY_MS)]
       \<and> 90 * (\<bar>rotationAngleDegree s - t\<bar> div 90) = \<bar>rotationAngleDegree s - t\<bar>
       \<and> rotationAngleDegree (rotateTo t s) = t"
proof -
  from assms(1) have guard: "t = 0 \<or> t = 90 \<or> t = 180 \<or> t = 270"
    by simp
  from guard have tick: "rotationTicks ! nat (t div 90) =
      (if t = 0 then ROTATE_SERVO_0 else if t = 90 then ROTATE_SERVO_90
       else if t = 180 then ROTATE_SERVO_180 else ROTATE_SERVO_270)"
    by (auto simp: rotationTicks_def)
  from guard assms(2) have exact:
    "90 * (\<bar>rotationAngleDegree s - t\<bar> div 90) = \<bar>rotationAngleDegree s - t\<bar>"
    by auto
  show ?thesis
    using tick exact by (simp add: rotateTo_accepted [OF guard])
qed

theorem rotateTo_valid_target_witness:
  "(270::int) \<in> {0, 90, 180, 270}
   \<and> rotationAngleDegree initial \<in> {0, 90, 180, 270}
   \<and> hw (rotateTo 270 initial) = [SetPWM 1 0 533, Delay 1950]
   \<and> rotationAngleDegree (rotateTo 270 initial) = 270
   \<and> hw (rotateTo 180 initial) = [SetPWM 1 0 397, Delay 1300]
   \<and> rotationAngleDegree (rotateTo 180 initial) = 180"
proof -
  have t270: "(270::int) \<in> {0, 90, 180, 270}" and t180: "(180::int) \<in> {0, 90, 180, 270}"
    by simp_all
  have a: "rotationAngleDegree initial \<in> {0, 90, 180, 270}"
    by (simp add: initial_def)
  show ?thesis
    using rotateTo_valid_target [OF t270 a] rotateTo_valid_target [OF t180 a]
    by (simp add: initial_def config_defs)
qed

text \<open>
  C2. Starting from a state with \<open>rotationAngleDegree = 0\<close>, after each call of every
  sequence of \<open>rotateLeft\<close>, \<open>rotateRight\<close> and \<open>rotateTo\<close> calls (the latter with any
  integer argument), \<open>rotationAngleDegree\<close> is one of 0, 90, 180, 270. The state after
  the first \<open>n\<close> calls of the sequence \<open>cs\<close> is \<open>run s (take n cs)\<close>.
\<close>

theorem rotationAngle_invariant:
  assumes "rotationAngleDegree s = 0"
  shows "rotationAngleDegree (run s (take n cs)) \<in> {0, 90, 180, 270}"
proof -
  from assms have "rotationAngleDegree s \<in> {0, 90, 180, 270}"
    by simp
  then show ?thesis
    by (rule run_angle_valid)
qed

theorem rotationAngle_invariant_witness:
  "rotationAngleDegree initial = 0
   \<and> rotationAngleDegree
        (run initial (take 4 [RotateLeft, RotateTo 45, RotateRight, RotateTo (- 90), RotateTo 180]))
       \<in> {0, 90, 180, 270}"
proof -
  have h: "rotationAngleDegree initial = 0"
    by (simp add: initial_def)
  show ?thesis
    by (rule conjI [OF h rotationAngle_invariant [OF h]])
qed

text \<open>
  C3, as the code has it. In a state with \<open>rotationAngleDegree = 270\<close>, \<open>rotateRight\<close>
  calls \<open>rotateTo 0\<close>: it writes the tick of 0 degrees to the rotate channel, sets
  \<open>rotationAngleDegree\<close> to 0, and waits three step units, \<open>3 * ROTATE_DELAY_MS\<close>, the
  linear distance from 270 to 0.
\<close>

theorem rotateRight_from_270:
  assumes "rotationAngleDegree s = 270"
  shows "rotationAngleDegree (rotateRight s) = 0
       \<and> hw (rotateRight s) =
           hw s @ [SetPWM ROTATE_SERVO_CHANNEL 0 ROTATE_SERVO_0, Delay (3 * ROTATE_DELAY_MS)]
       \<and> waited (hw (rotateRight s)) = waited (hw s) + 3 * ROTATE_DELAY_MS"
  using assms
  by (simp add: rotateRight_def rotateTo_accepted rotationTicks_nth waited_append)

theorem rotateRight_from_270_witness:
  "rotationAngleDegree \<lparr>rotationAngleDegree = 270, hw = []\<rparr> = 270
   \<and> rotationAngleDegree (rotateRight \<lparr>rotationAngleDegree = 270, hw = []\<rparr>) = 0
   \<and> hw (rotateRight \<lparr>rotationAngleDegree = 270, hw = []\<rparr>) = [SetPWM 1 0 102, Delay 1950]"
  using rotateRight_from_270 [of "\<lparr>rotationAngleDegree = 270, hw = []\<rparr>"]
  by (simp add: config_defs)

text \<open>
  C3, as stated, fails: from 270 the wait of \<open>rotateRight\<close> is 1950 ms, which is three
  step units and not one.
\<close>

theorem rotateRight_from_270_counterexample:
  "rotationAngleDegree (rotateRight \<lparr>rotationAngleDegree = 270, hw = []\<rparr>) = 0
   \<and> waited (hw (rotateRight \<lparr>rotationAngleDegree = 270, hw = []\<rparr>)) = 1950
   \<and> waited (hw (rotateRight \<lparr>rotationAngleDegree = 270, hw = []\<rparr>)) \<noteq> 1 * ROTATE_DELAY_MS"
  by (simp add: rotateRight_def rotateTo_accepted config_defs)

text \<open>
  C4. In a state with \<open>rotationAngleDegree = 0\<close>, \<open>rotateLeft\<close> sets the angle to 270,
  writes the tick of 270 degrees and waits three step units, \<open>3 * ROTATE_DELAY_MS\<close>. In
  a state whose angle is one of 90, 180, 270, \<open>rotateLeft\<close> sets the angle to the
  current angle minus 90.
\<close>

theorem rotateLeft_steps:
  assumes "rotationAngleDegree s \<in> {0, 90, 180, 270}"
  shows "(rotationAngleDegree s = 0 \<longrightarrow>
            rotationAngleDegree (rotateLeft s) = 270
          \<and> hw (rotateLeft s) =
              hw s @ [SetPWM ROTATE_SERVO_CHANNEL 0 ROTATE_SERVO_270, Delay (3 * ROTATE_DELAY_MS)]
          \<and> waited (hw (rotateLeft s)) = waited (hw s) + 3 * ROTATE_DELAY_MS)
       \<and> (rotationAngleDegree s > 0 \<longrightarrow>
            rotationAngleDegree (rotateLeft s) = rotationAngleDegree s - 90)"
  using assms
  by (auto simp: rotateLeft_def rotateTo_accepted rotationTicks_nth waited_append)

theorem rotateLeft_steps_witness:
  "rotationAngleDegree initial \<in> {0, 90, 180, 270}
   \<and> rotationAngleDegree initial = 0
   \<and> rotationAngleDegree (rotateLeft initial) = 270
   \<and> hw (rotateLeft initial) = [SetPWM 1 0 533, Delay 1950]
   \<and> rotationAngleDegree \<lparr>rotationAngleDegree = 180, hw = []\<rparr> \<in> {0, 90, 180, 270}
   \<and> rotationAngleDegree \<lparr>rotationAngleDegree = 180, hw = []\<rparr> > 0
   \<and> rotationAngleDegree (rotateLeft \<lparr>rotationAngleDegree = 180, hw = []\<rparr>) = 90"
  using rotateLeft_steps [of initial]
    rotateLeft_steps [of "\<lparr>rotationAngleDegree = 180, hw = []\<rparr>"]
  by (simp add: initial_def config_defs)

text \<open>
  C6. For \<open>x\<close> among 0, 90, 180 and 270, a second \<open>rotateTo x\<close> right after a first one
  computes a step count of 0: it writes the tick of \<open>x\<close> to the rotate channel again,
  waits \<open>0\<close> ms, and leaves \<open>rotationAngleDegree\<close> at \<open>x\<close>. The total wait and the signal
  held on every channel are the same as after the first call.
\<close>

theorem rotateTo_twice:
  assumes "x \<in> {0, 90, 180, 270}"
  shows "rotationAngleDegree (rotateTo x s) = x
       \<and> \<bar>rotationAngleDegree (rotateTo x s) - x\<bar> div 90 = 0
       \<and> hw (rotateTo x (rotateTo x s)) =
           hw (rotateTo x s) @
             [SetPWM ROTATE_SERVO_CHANNEL 0
                (if x = 0 then ROTATE_SERVO_0
                 else if x = 90 then ROTATE_SERVO_90
                 else if x = 180 then ROTATE_SERVO_180
                 else ROTATE_SERVO_270),
              Delay 0]
       \<and> waited (hw (rotateTo x (rotateTo x s))) = waited (hw (rotateTo x s))
       \<and> pwmOut (hw (rotateTo x (rotateTo x s))) = pwmOut (hw (rotateTo x s))
       \<and> rotationAngleDegree (rotateTo x (rotateTo x s)) = x"
proof -
  from assms have guard: "x = 0 \<or> x = 90 \<or> x = 180 \<or> x = 270"
    by simp
  from guard have tick: "rotationTicks ! nat (x div 90) =
      (if x = 0 then ROTATE_SERVO_0 else if x = 90 then ROTATE_SERVO_90
       else if x = 180 then ROTATE_SERVO_180 else ROTATE_SERVO_270)"
    by (auto simp: rotationTicks_def)
  show ?thesis
    using tick
    by (simp add: rotateTo_accepted [OF guard] waited_append pwmOut_append)
qed

theorem rotateTo_twice_witness:
  "(90::int) \<in> {0, 90, 180, 270}
   \<and> hw (rotateTo 90 initial) = [SetPWM 1 0 247, Delay 650]
   \<and> hw (rotateTo 90 (rotateTo 90 initial)) = hw (rotateTo 90 initial) @ [SetPWM 1 0 247, Delay 0]
   \<and> rotationAngleDegree (rotateTo 90 (rotateTo 90 initial)) = 90"
proof -
  have x: "(90::int) \<in> {0, 90, 180, 270}"
    by simp
  have first: "hw (rotateTo 90 initial) = [SetPWM 1 0 247, Delay 650]"
    by (simp add: rotateTo_accepted rotationTicks_nth initial_def config_defs)
  show ?thesis
    using rotateTo_twice [OF x, of initial] first
    by (simp add: config_defs)
qed

text \<open>
  C7. From every state, \<open>initPositions\<close> ends with \<open>rotationAngleDegree = 0\<close> and with the
  turn channel holding \<open>TURN_SERVO_MIN\<close>, the hold position. The calls it issues are, in
  this order: the write of \<open>TURN_SERVO_MIN\<close> to the turn channel, a wait of
  \<open>TURN_DELAY_MS\<close>, the calls of \<open>rotateTo 0\<close> (the write of the tick of 0 degrees to the
  rotate channel and the wait for the linear distance to 0), and a last wait, which
  is \<open>2 * ROTATE_DELAY_MS\<close> long. In the states the class can reach, the wait inside
  \<open>rotateTo 0\<close> is 0, 650, 1300 or 1950 ms.
\<close>

theorem initPositions_homes:
  "rotationAngleDegree (initPositions s) = 0
   \<and> pwmOut (hw (initPositions s)) TURN_SERVO_CHANNEL = Some TURN_SERVO_MIN
   \<and> initPositions s =
       delay (2 * ROTATE_DELAY_MS)
         (rotateTo 0 (delay TURN_DELAY_MS (setPWM TURN_SERVO_CHANNEL 0 TURN_SERVO_MIN s)))
   \<and> hw (initPositions s) =
       hw s @ [SetPWM TURN_SERVO_CHANNEL 0 TURN_SERVO_MIN,
               Delay TURN_DELAY_MS,
               SetPWM ROTATE_SERVO_CHANNEL 0 ROTATE_SERVO_0,
               Delay (\<bar>rotationAngleDegree s\<bar> div 90 * ROTATE_DELAY_MS),
               Delay (2 * ROTATE_DELAY_MS)]"
proof -
  have channels: "TURN_SERVO_CHANNEL \<noteq> ROTATE_SERVO_CHANNEL"
    by (simp add: TURN_SERVO_CHANNEL_def ROTATE_SERVO_CHANNEL_def)
  have unfolded: "initPositions s =
      \<lparr>rotationAngleDegree = 0,
       hw = hw s @ [SetPWM TURN_SERVO_CHANNEL 0 TURN_SERVO_MIN,
                    Delay TURN_DELAY_MS,
                    SetPWM ROTATE_SERVO_CHANNEL 0 ROTATE_SERVO_0,
                    Delay (\<bar>rotationAngleDegree s\<bar> div 90 * ROTATE_DELAY_MS),
                    Delay (2 * ROTATE_DELAY_MS)]\<rparr>"
    by (simp add: initPositions_def Let_def rotateTo_accepted rotationTicks_nth
        setPWM_def delay_def)
  have held: "pwmOut (hw (initPositions s)) TURN_SERVO_CHANNEL = Some TURN_SERVO_MIN"
    using channels by (simp add: unfolded pwmOut_append)
  have seq: "initPositions s =
      delay (2 * ROTATE_DELAY_MS)
        (rotateTo 0 (delay TURN_DELAY_MS (setPWM TURN_SERVO_CHANNEL 0 TURN_SERVO_MIN s)))"
    by (simp add: initPositions_def Let_def)
  have angle: "rotationAngleDegree (initPositions s) = 0"
    by (simp add: unfolded)
  have calls: "hw (initPositions s) =
      hw s @ [SetPWM TURN_SERVO_CHANNEL 0 TURN_SERVO_MIN,
              Delay TURN_DELAY_MS,
              SetPWM ROTATE_SERVO_CHANNEL 0 ROTATE_SERVO_0,
              Delay (\<bar>rotationAngleDegree s\<bar> div 90 * ROTATE_DELAY_MS),
              Delay (2 * ROTATE_DELAY_MS)]"
    by (simp add: unfolded)
  from angle held seq calls show ?thesis
    by (intro conjI)
qed

text \<open>
  C8. From every state, \<open>turnCube\<close> leaves \<open>rotationAngleDegree\<close> as it is and issues
  exactly four calls: the write of \<open>TURN_SERVO_MAX\<close> (push) to the turn channel, a wait
  of \<open>TURN_DELAY_MS\<close>, the write of \<open>TURN_SERVO_MIN\<close> (hold) to the turn channel, and a
  wait of \<open>TURN_DELAY_MS\<close>. Nothing is written to the rotate channel.
\<close>

theorem turnCube_frame:
  "rotationAngleDegree (turnCube s) = rotationAngleDegree s
   \<and> hw (turnCube s) =
       hw s @ [SetPWM TURN_SERVO_CHANNEL 0 TURN_SERVO_MAX,
               Delay TURN_DELAY_MS,
               SetPWM TURN_SERVO_CHANNEL 0 TURN_SERVO_MIN,
               Delay TURN_DELAY_MS]
   \<and> writesOn ROTATE_SERVO_CHANNEL (hw (turnCube s)) = writesOn ROTATE_SERVO_CHANNEL (hw s)
   \<and> pwmOut (hw (turnCube s)) ROTATE_SERVO_CHANNEL = pwmOut (hw s) ROTATE_SERVO_CHANNEL"
proof -
  have channels: "TURN_SERVO_CHANNEL \<noteq> ROTATE_SERVO_CHANNEL"
    by (simp add: TURN_SERVO_CHANNEL_def ROTATE_SERVO_CHANNEL_def)
  have unfolded: "turnCube s =
      s\<lparr>hw := hw s @ [SetPWM TURN_SERVO_CHANNEL 0 TURN_SERVO_MAX,
                      Delay TURN_DELAY_MS,
                      SetPWM TURN_SERVO_CHANNEL 0 TURN_SERVO_MIN,
                      Delay TURN_DELAY_MS]\<rparr>"
    by (simp add: turnCube_def Let_def setPWM_def delay_def)
  show ?thesis
    using channels by (simp add: unfolded writesOn_append pwmOut_append)
qed

text \<open>
  C9. The four rotation ticks of the calibration table, in the order 0, 90, 180, 270
  degrees, are strictly increasing, hence pairwise distinct, and every tick of the
  configuration (the four rotation ticks and the two turn ticks) lies between 0 and 4095.
\<close>

theorem calibration_table:
  "rotationTicks = [102, 247, 397, 533]
   \<and> ROTATE_SERVO_0 < ROTATE_SERVO_90
   \<and> ROTATE_SERVO_90 < ROTATE_SERVO_180
   \<and> ROTATE_SERVO_180 < ROTATE_SERVO_270
   \<and> sorted_wrt (<) rotationTicks
   \<and> distinct rotationTicks
   \<and> 0 \<le> ROTATE_SERVO_0 \<and> ROTATE_SERVO_0 \<le> 4095
   \<and> 0 \<le> ROTATE_SERVO_90 \<and> ROTATE_SERVO_90 \<le> 4095
   \<and> 0 \<le> ROTATE_SERVO_180 \<and> ROTATE_SERVO_180 \<le> 4095
   \<and> 0 \<le> ROTATE_SERVO_270 \<and> ROTATE_SERVO_270 \<le> 4095
   \<and> 0 \<le> TURN_SERVO_MIN \<and> TURN_SERVO_MIN \<le> 4095
   \<and> 0 \<le> TURN_SERVO_MAX \<and> TURN_SERVO_MAX \<le> 4095"
  by (simp add: rotationTicks_def config_defs)

text \<open>
  C10. In a state whose angle is one of 0, 90, 180, 270, \<open>rotateRight\<close> followed by
  \<open>rotateLeft\<close> gives back the angle the state had, and so does \<open>rotateLeft\<close> followed by
  \<open>rotateRight\<close>, also across the step between 270 and 0.
\<close>

theorem rotateLeft_rotateRight_inverse:
  assumes "rotationAngleDegree s \<in> {0, 90, 180, 270}"
  shows "rotationAngleDegree (rotateLeft (rotateRight s)) = rotationAngleDegree s
       \<and> rotationAngleDegree (rotateRight (rotateLeft s)) = rotationAngleDegree s"
  using assms
  by (auto simp: rotateLeft_def rotateRight_def rotateTo_accepted)

theorem rotateLeft_rotateRight_inverse_witness:
  "rotationAngleDegree \<lparr>rotationAngleDegree = 270, hw = []\<rparr> \<in> {0, 90, 180, 270}
   \<and> rotationAngleDegree (rotateRight \<lparr>rotationAngleDegree = 270, hw = []\<rparr>) = 0
   \<and> rotationAngleDegree (rotateLeft (rotateRight \<lparr>rotationAngleDegree = 270, hw = []\<rparr>)) = 270
   \<and> rotationAngleDegree (rotateLeft initial) = 270
   \<and> rotationAngleDegree (rotateRight (rotateLeft initial)) = 0"
proof -
  have a: "rotationAngleDegree \<lparr>rotationAngleDegree = 270, hw = []\<rparr> \<in> {0, 90, 180, 270}"
    by simp
  have b: "rotationAngleDegree initial \<in> {0, 90, 180, 270}"
    by (simp add: initial_def)
  have r: "rotationAngleDegree (rotateRight \<lparr>rotationAngleDegree = 270, hw = []\<rparr>) = 0"
    by (simp add: rotateRight_def rotateTo_accepted)
  have l: "rotationAngleDegree (rotateLeft initial) = 270"
    by (simp add: rotateLeft_def rotateTo_accepted initial_def)
  show ?thesis
    using rotateLeft_rotateRight_inverse [OF a] rotateLeft_rotateRight_inverse [OF b] r l
    by (simp add: initial_def)
qed

end
